theory Spec2Isabelle
  imports Main "HOL-Library.Sublist" "HOL-Library.Char_ord" "HOL-Library.List_Lexorder"
begin

section \<open>Global identifier assignment of import\_issues.py\<close>

text \<open>
  A shallow embedding of the class \<open>GlobalIDAssigner\<close> of \<^verbatim>\<open>src/import_issues.py\<close>:
  the two classifiers, the registry (a Python dict, kept here as an association list in
  insertion order), the assignment of identifiers and the update of the remote number.
  Python strings are \<^typ>\<open>string\<close>, a character being a code point below 256; the model
  of \<^verbatim>\<open>lower\<close> and \<^verbatim>\<open>strip\<close> is exact for such text.
\<close>

subsection \<open>The string methods the code calls\<close>

text \<open>
  \<^verbatim>\<open>str.lower()\<close>: the letters A to Z become a to z, and the uppercase letters of
  Latin-1 (0xC0 to 0xDE, without the multiplication sign 0xD7) become their lowercase
  forms (0xE0 to 0xFE); every other code point below 256 stays.
\<close>

definition lower_char :: "char \<Rightarrow> char" where
  "lower_char c =
     (case map_of (zip (''ABCDEFGHIJKLMNOPQRSTUVWXYZ'' @
                        [CHR 0xC0, CHR 0xC1, CHR 0xC2, CHR 0xC3, CHR 0xC4, CHR 0xC5, CHR 0xC6,
                         CHR 0xC7, CHR 0xC8, CHR 0xC9, CHR 0xCA, CHR 0xCB, CHR 0xCC, CHR 0xCD,
                         CHR 0xCE, CHR 0xCF, CHR 0xD0, CHR 0xD1, CHR 0xD2, CHR 0xD3, CHR 0xD4,
                         CHR 0xD5, CHR 0xD6, CHR 0xD8, CHR 0xD9, CHR 0xDA, CHR 0xDB, CHR 0xDC,
                         CHR 0xDD, CHR 0xDE])
                       (''abcdefghijklmnopqrstuvwxyz'' @
                        [CHR 0xE0, CHR 0xE1, CHR 0xE2, CHR 0xE3, CHR 0xE4, CHR 0xE5, CHR 0xE6,
                         CHR 0xE7, CHR 0xE8, CHR 0xE9, CHR 0xEA, CHR 0xEB, CHR 0xEC, CHR 0xED,
                         CHR 0xEE, CHR 0xEF, CHR 0xF0, CHR 0xF1, CHR 0xF2, CHR 0xF3, CHR 0xF4,
                         CHR 0xF5, CHR 0xF6, CHR 0xF8, CHR 0xF9, CHR 0xFA, CHR 0xFB, CHR 0xFC,
                         CHR 0xFD, CHR 0xFE])) c of
        Some d \<Rightarrow> d
      | None \<Rightarrow> c)"

definition str_lower :: "string \<Rightarrow> string" where
  "str_lower s = map lower_char s"

text \<open>
  \<^verbatim>\<open>str.strip()\<close> removes leading and trailing whitespace, the characters for which
  \<^verbatim>\<open>str.isspace()\<close> holds: tab, line feed, vertical tab, form feed, carriage return,
  the four separators 0x1C to 0x1F, the space, next line (0x85) and the no-break
  space (0xA0).
\<close>

definition is_space :: "char \<Rightarrow> bool" where
  "is_space c = (c \<in> set [CHR 0x09, CHR 0x0A, CHR 0x0B, CHR 0x0C, CHR 0x0D,
                          CHR 0x1C, CHR 0x1D, CHR 0x1E, CHR 0x1F, CHR '' '',
                          CHR 0x85, CHR 0xA0])"

definition str_strip :: "string \<Rightarrow> string" where
  "str_strip s = rev (dropWhile is_space (rev (dropWhile is_space s)))"

text \<open>\<^verbatim>\<open>sep.join(xs)\<close>.\<close>

fun str_join :: "string \<Rightarrow> string list \<Rightarrow> string" where
  "str_join sep [] = []"
| "str_join sep [x] = x"
| "str_join sep (x # y # ys) = x @ sep @ str_join sep (y # ys)"

text \<open>
  \<^verbatim>\<open>s.split(sep)\<close> for a separator of one character; the result is never empty
  (\<^verbatim>\<open>"".split('/') == ['']\<close>).
\<close>

fun str_split :: "string \<Rightarrow> char \<Rightarrow> string list" where
  "str_split [] sep = [[]]"
| "str_split (c # cs) sep =
     (if c = sep then [] # str_split cs sep
      else (case str_split cs sep of
              w # ws \<Rightarrow> (c # w) # ws
            | [] \<Rightarrow> [[c]]))"

text \<open>\<^verbatim>\<open>s.startswith(p)\<close>; the substring test \<^verbatim>\<open>a in b\<close> is \<^const>\<open>sublist\<close>.\<close>

definition startswith :: "string \<Rightarrow> string \<Rightarrow> bool" where
  "startswith s p = prefix p s"

text \<open>
  The format specification \<^verbatim>\<open>03d\<close> of a counter: its decimal digits, padded on the left
  with zeros to a width of at least three. The counter is one more than a count,
  so it is a natural number.
\<close>

definition digit_char :: "nat \<Rightarrow> char" where
  "digit_char d = ''0123456789'' ! d"

fun digits :: "nat \<Rightarrow> string" where
  "digits n = (if n < 10 then [digit_char n] else digits (n div 10) @ [digit_char (n mod 10)])"

declare digits.simps [simp del]

definition format_03d :: "nat \<Rightarrow> string" where
  "format_03d n = replicate (3 - length (digits n)) CHR ''0'' @ digits n"

subsection \<open>The data\<close>

text \<open>The dataclass \<open>Issue\<close>.\<close>

record issue =
  number :: int
  title :: string
  body :: string
  labels :: "string list"
  milestone :: "string option"
  epic :: "string option"
  estimated_time :: "string option"
  is_epic :: bool
  dependencies :: "string list"
  global_id :: "string option"

text \<open>
  The dict stored per identifier by \<open>assign_id\<close>; the fields are its keys (those that
  would clash with a field of \<open>issue\<close> carry the prefix \<open>entry\<close>).
\<close>

record entry =
  entry_global_id :: string
  project :: string
  component :: string
  local_number :: int
  github_repo :: string
  github_number :: "int option"
  entry_title :: string
  entry_labels :: "string list"
  entry_milestone :: "string option"
  status :: string

text \<open>
  The registry is a Python dict from identifiers to entries: an association list in
  insertion order. \<^verbatim>\<open>d[k] = v\<close> replaces the value where the key is, and appends the
  pair when the key is new.
\<close>

type_synonym registry = "(string \<times> entry) list"

fun dict_setitem :: "('k \<times> 'v) list \<Rightarrow> 'k \<Rightarrow> 'v \<Rightarrow> ('k \<times> 'v) list" where
  "dict_setitem [] k v = [(k, v)]"
| "dict_setitem ((k', v') # d) k v =
     (if k' = k then (k, v) # d else (k', v') # dict_setitem d k v)"

definition dict_keys :: "('k \<times> 'v) list \<Rightarrow> 'k list" where
  "dict_keys d = map fst d"

text \<open>
  The state of a \<open>GlobalIDAssigner\<close>. The field \<open>registry_file\<close> holds what the file at
  that path contains (\<open>None\<close> when the file does not exist), so that saving is a
  change of the state.
\<close>

record assigner =
  repo_name :: string
  project_code :: string
  registry_file :: "registry option"
  registry :: registry

text \<open>
  The error kinds the specification names. No path of the modelled methods raises;
  their results are sums so that returning without error is a statement about the value.
\<close>

datatype error = DuplicateId | NotFound

subsection \<open>The tables\<close>

definition PROJECT_CODES :: "(string \<times> string) list" where
  "PROJECT_CODES =
    [(''space-colony-modelica-core'', ''MODELICA''),
     (''modelica-rust-ffi'', ''FFI''),
     (''modelica-rust-modbus-server'', ''MODBUS''),
     (''godot-modelica-rust-integration'', ''GODOT''),
     (''v-ics-le'', ''VICS''),
     (''V-ICS'', ''VICS''),
     (''lunaco-sim'', ''LUNACO''),
     (''godot-colony-sim'', ''COLONY''),
     (''modelica-godot-integration'', ''CORE''),
     (''colony-sim-framework'', ''COLONY''),
     (''mars-irrigation'', ''IRRIGATION'')]"

definition COMPONENT_MAP :: "(string \<times> string) list" where
  "COMPONENT_MAP =
    [(''setup'', ''ENV''),
     (''environment'', ''ENV''),
     (''installation'', ''ENV''),
     (''poc'', ''POC''),
     (''proof-of-concept'', ''POC''),
     (''validation'', ''POC''),
     (''build'', ''BUILD''),
     (''automation'', ''BUILD''),
     (''compilation'', ''BUILD''),
     (''ci'', ''BUILD''),
     (''modeling'', ''MODEL''),
     (''model'', ''MODEL''),
     (''physics'', ''MODEL''),
     (''simulation'', ''MODEL''),
     (''rust'', ''RUST''),
     (''ffi'', ''FFI''),
     (''bindings'', ''FFI''),
     (''safety'', ''RUST''),
     (''concurrency'', ''RUST''),
     (''modbus'', ''PROTO''),
     (''protocol'', ''PROTO''),
     (''networking'', ''NET''),
     (''tcp'', ''NET''),
     (''integration'', ''INTEG''),
     (''godot'', ''GODOT''),
     (''api'', ''API''),
     (''config'', ''CONFIG''),
     (''configuration'', ''CONFIG''),
     (''deployment'', ''DEPLOY''),
     (''docker'', ''DEPLOY''),
     (''performance'', ''PERF''),
     (''optimization'', ''PERF''),
     (''visualization'', ''VIZ''),
     (''ui'', ''VIZ''),
     (''frontend'', ''VIZ''),
     (''backend'', ''BACKEND''),
     (''server'', ''BACKEND''),
     (''power-systems'', ''POWER''),
     (''electrical'', ''POWER''),
     (''life-support'', ''LIFE''),
     (''eclss'', ''LIFE''),
     (''thermal'', ''THERMAL''),
     (''heating'', ''THERMAL''),
     (''security'', ''SEC''),
     (''attacks'', ''SEC''),
     (''plc'', ''PLC''),
     (''testing'', ''TEST''),
     (''test'', ''TEST''),
     (''documentation'', ''DOC''),
     (''docs'', ''DOC''),
     (''data'', ''DATA'')]"

subsection \<open>The classifiers\<close>

text \<open>
  \<open>_get_project_code\<close>: the loop over \<^verbatim>\<open>PROJECT_CODES.items()\<close> returns at the first
  key that is contained in the name or contains it.
\<close>

fun partial_match :: "(string \<times> string) list \<Rightarrow> string \<Rightarrow> string option" where
  "partial_match [] clean_name = None"
| "partial_match ((key, code) # items) clean_name =
     (if sublist key clean_name \<or> sublist clean_name key then Some code
      else partial_match items clean_name)"

definition get_project_code :: "string \<Rightarrow> string" where
  "get_project_code name =
     (let clean_name = (if CHR ''/'' \<in> set name then last (str_split name CHR ''/'') else name)
      in case map_of PROJECT_CODES clean_name of
           Some code \<Rightarrow> code
         | None \<Rightarrow>
             (case partial_match PROJECT_CODES clean_name of
                Some code \<Rightarrow> code
              | None \<Rightarrow> ''MISC''))"

text \<open>
  \<open>_get_component_code\<close>: the loop over the labels returns at the first label whose
  lowercased, stripped text is a key of \<open>COMPONENT_MAP\<close>; after the loop the labels
  joined by single spaces, lowercased, go through the chain of substring tests.
\<close>

fun label_match :: "string list \<Rightarrow> string option" where
  "label_match [] = None"
| "label_match (label # rest) =
     (let label_lower = str_strip (str_lower label)
      in case map_of COMPONENT_MAP label_lower of
           Some code \<Rightarrow> Some code
         | None \<Rightarrow> label_match rest)"

definition get_component_code :: "string list \<Rightarrow> string" where
  "get_component_code ls =
     (case label_match ls of
        Some code \<Rightarrow> code
      | None \<Rightarrow>
          (let label_text = str_lower (str_join '' '' ls)
           in if sublist ''rust'' label_text \<or> sublist ''ffi'' label_text then ''RUST''
              else if sublist ''modbus'' label_text \<or> sublist ''protocol'' label_text then ''PROTO''
              else if sublist ''godot'' label_text then ''GODOT''
              else if sublist ''model'' label_text \<or> sublist ''physics'' label_text then ''MODEL''
              else if sublist ''config'' label_text then ''CONFIG''
              else ''MISC''))"

subsection \<open>The assigner\<close>

text \<open>\<open>_load_registry\<close> and \<open>_save_registry\<close> (\<^verbatim>\<open>json.dump\<close> with \<^verbatim>\<open>sort_keys=True\<close>).\<close>

definition load_registry :: "registry option \<Rightarrow> registry" where
  "load_registry file = (case file of Some content \<Rightarrow> content | None \<Rightarrow> [])"

definition save_registry :: "assigner \<Rightarrow> assigner" where
  "save_registry s = s\<lparr>registry_file := Some (sort_key fst (registry s))\<rparr>"

text \<open>
  \<open>__init__\<close>: the assigner and the lines it prints, the warning when the project
  code is \<open>MISC\<close>.
\<close>

definition init :: "string \<Rightarrow> registry option \<Rightarrow> assigner \<times> string list" where
  "init name file =
     (let code = get_project_code name;
          s = \<lparr>repo_name = name, project_code = code, registry_file = file,
               registry = load_registry file\<rparr>
      in (s, if code = ''MISC''
             then [''WARNING: Repository '' @ [CHR 0x27] @ name @ [CHR 0x27]
                     @ '' not in PROJECT_CODES, using MISC'',
                   ''Consider adding to PROJECT_CODES dictionary'']
             else []))"

text \<open>\<open>_count_existing\<close>: the loop over the keys, with its counter.\<close>

fun count_loop :: "string list \<Rightarrow> string \<Rightarrow> nat \<Rightarrow> nat" where
  "count_loop [] pre count = count"
| "count_loop (gid # gids) pre count =
     count_loop gids pre (if startswith gid pre then count + 1 else count)"

definition count_existing :: "registry \<Rightarrow> string \<Rightarrow> nat" where
  "count_existing reg pre = count_loop (dict_keys reg) pre 0"

text \<open>
  \<open>assign_id\<close> returns the identifier, the assigner with the entry stored, and the
  issue with its \<open>global_id\<close> set.
\<close>

definition assign_id :: "assigner \<Rightarrow> issue \<Rightarrow> error + (string \<times> assigner \<times> issue)" where
  "assign_id s i =
     (let component_code = get_component_code (labels i);
          pre = project_code s @ ''-'' @ component_code;
          next_num = count_existing (registry s) pre + 1;
          gid = pre @ ''-'' @ format_03d next_num;
          e = \<lparr>entry_global_id = gid, project = project_code s,
               component = component_code,
               local_number = number i, github_repo = repo_name s, github_number = None,
               entry_title = title i, entry_labels = labels i, entry_milestone = milestone i,
               status = ''open''\<rparr>
      in Inr (gid, s\<lparr>registry := dict_setitem (registry s) gid e\<rparr>, i\<lparr>global_id := Some gid\<rparr>))"

text \<open>
  \<open>update_github_number\<close>: the \<^verbatim>\<open>if\<close> has no \<^verbatim>\<open>else\<close>, an unknown identifier is
  skipped.
\<close>

definition update_github_number :: "assigner \<Rightarrow> string \<Rightarrow> int \<Rightarrow> error + assigner" where
  "update_github_number s gid n =
     (case map_of (registry s) gid of
        Some e \<Rightarrow>
          Inr (save_registry
                 (s\<lparr>registry := dict_setitem (registry s) gid (e\<lparr>github_number := Some n\<rparr>)\<rparr>))
      | None \<Rightarrow> Inr s)"

text \<open>
  The loop of \<open>GitHubImporter.run\<close> that assigns every parsed item in turn:
  \<^verbatim>\<open>for issue in epics + issues: global_id = self.id_assigner.assign_id(issue)\<close>.
  It returns the identifiers in the order of assignment and the assigner at the end.
\<close>

fun assign_all :: "assigner \<Rightarrow> issue list \<Rightarrow> error + (string list \<times> assigner)" where
  "assign_all s [] = Inr ([], s)"
| "assign_all s (i # rest) =
     (case assign_id s i of
        Inl err \<Rightarrow> Inl err
      | Inr (gid, s', i') \<Rightarrow>
          (case assign_all s' rest of
             Inl err \<Rightarrow> Inl err
           | Inr (gids, s'') \<Rightarrow> Inr (gid # gids, s'')))"

subsection \<open>The notions of the specification\<close>

text \<open>
  The identifier format of the specification, \<^verbatim>\<open>{project}-{component}-{NNN}\<close>.
\<close>

definition make_id :: "string \<Rightarrow> string \<Rightarrow> nat \<Rightarrow> string" where
  "make_id p c n = p @ ''-'' @ c @ ''-'' @ format_03d n"

text \<open>
  Project code resolution as the specification words it: keep the trailing path
  segment, look it up, otherwise scan the table in its order for the first key that
  is a substring of the segment or has the segment as a substring, otherwise the
  sentinel.
\<close>

definition trailing_segment :: "string \<Rightarrow> string" where
  "trailing_segment s = rev (takeWhile (\<lambda>c. c \<noteq> CHR ''/'') (rev s))"

definition resolveProjectCode :: "string \<Rightarrow> string" where
  "resolveProjectCode repo =
     (let seg = trailing_segment repo
      in case map_of PROJECT_CODES seg of
           Some code \<Rightarrow> code
         | None \<Rightarrow>
             (case find (\<lambda>(key, code). sublist key seg \<or> sublist seg key) PROJECT_CODES of
                Some (key, code) \<Rightarrow> code
              | None \<Rightarrow> ''MISC''))"

text \<open>
  Normalizing a label as the specification words it, lowercase and trim whitespace,
  written by code points and independently of the string methods above: a character
  is uppercase when its code is 65 to 90, or 192 to 222 and not 215, and its lowercase
  form is 32 above; whitespace is 9 to 13, 28 to 32, 133 and 160.
\<close>

definition lowercase_char :: "char \<Rightarrow> char" where
  "lowercase_char c =
     (let n = of_char c :: nat
      in if (65 \<le> n \<and> n \<le> 90) \<or> (192 \<le> n \<and> n \<le> 222 \<and> n \<noteq> 215)
         then char_of (n + 32) else c)"

definition lowercase :: "string \<Rightarrow> string" where
  "lowercase s = map lowercase_char s"

definition whitespace_char :: "char \<Rightarrow> bool" where
  "whitespace_char c =
     (let n = of_char c :: nat
      in (9 \<le> n \<and> n \<le> 13) \<or> (28 \<le> n \<and> n \<le> 32) \<or> n = 133 \<or> n = 160)"

definition trim :: "string \<Rightarrow> string" where
  "trim s =
     (let t = dropWhile whitespace_char s
      in take (length t - length (takeWhile whitespace_char (rev t))) t)"

definition normalize_label :: "string \<Rightarrow> string" where
  "normalize_label l = trim (lowercase l)"

text \<open>The ordered substring heuristics of the specification.\<close>

definition HEURISTICS :: "(string list \<times> string) list" where
  "HEURISTICS =
    [([''rust'', ''ffi''], ''RUST''),
     ([''modbus'', ''protocol''], ''PROTO''),
     ([''godot''], ''GODOT''),
     ([''model'', ''physics''], ''MODEL''),
     ([''config''], ''CONFIG'')]"

text \<open>
  Component code resolution as the specification words it, for a given way of making
  the label text: the code of the first label, in the given order, whose normalized
  text is in the table; otherwise the first of the ordered heuristics that has a
  pattern in the label text; otherwise the sentinel.
\<close>

definition resolve_component :: "(string list \<Rightarrow> string) \<Rightarrow> string list \<Rightarrow> string" where
  "resolve_component label_text ls =
     (case List.map_filter (\<lambda>l. map_of COMPONENT_MAP (normalize_label l)) ls of
        code # others \<Rightarrow> code
      | [] \<Rightarrow>
          (case find (\<lambda>(pats, code). list_ex (\<lambda>p. sublist p (label_text ls)) pats)
                  HEURISTICS of
             Some (pats, code) \<Rightarrow> code
           | None \<Rightarrow> ''MISC''))"

text \<open>
  The label text in the words of the specification: all labels concatenated into one
  lowercase string.
\<close>

definition resolveComponentCode :: "string list \<Rightarrow> string" where
  "resolveComponentCode ls = resolve_component (\<lambda>ls. lowercase (concat ls)) ls"

text \<open>
  The label text with a single space between one label and the next, in lowercase.
\<close>

definition join_spaces :: "string list \<Rightarrow> string" where
  "join_spaces ls =
     (case ls of
        [] \<Rightarrow> []
      | l # rest \<Rightarrow> l @ concat (map (\<lambda>x. '' '' @ x) rest))"

definition resolveComponentCode_joined :: "string list \<Rightarrow> string" where
  "resolveComponentCode_joined ls = resolve_component (\<lambda>ls. lowercase (join_spaces ls)) ls"

text \<open>
  A registry lifetime: the registry starts empty (no file), and changes only through
  \<open>assign_id\<close> of an assigner whose project code comes from its repository name,
  through \<open>update_github_number\<close>, and through being saved and loaded again. Nothing
  deletes a record.
\<close>

inductive registry_lifetime :: "registry \<Rightarrow> bool" where
  fresh: "registry_lifetime (load_registry None)"
| assigned:
    "registry_lifetime (registry s) \<Longrightarrow> project_code s = get_project_code (repo_name s) \<Longrightarrow>
     assign_id s i = Inr (gid, s', i') \<Longrightarrow> registry_lifetime (registry s')"
| updated:
    "registry_lifetime (registry s) \<Longrightarrow> update_github_number s gid n = Inr s' \<Longrightarrow>
     registry_lifetime (registry s')"
| reloaded:
    "registry_lifetime (registry s) \<Longrightarrow>
     registry_lifetime (load_registry (registry_file (save_registry s)))"

text \<open>Auxiliary notions of the proofs: reading a decimal numeral, and texts without a hyphen.\<close>

definition digit_val :: "char \<Rightarrow> nat" where
  "digit_val c =
     (case map_of (zip ''0123456789'' [0, 1, 2, 3, 4, 5, 6, 7, 8, 9]) c of
        Some d \<Rightarrow> d
      | None \<Rightarrow> 0)"

definition read_nat :: "string \<Rightarrow> nat" where
  "read_nat s = foldl (\<lambda>a c. 10 * a + digit_val c) 0 s"

definition no_dash :: "string \<Rightarrow> bool" where
  "no_dash s = (CHR ''-'' \<notin> set s)"

text \<open>
  The numbering invariant of a registry: no key \<open>p-c-NNN\<close> is numbered beyond the
  count of the keys that start with \<open>p-c\<close>.
\<close>

definition numbering_inv :: "registry \<Rightarrow> bool" where
  "numbering_inv reg =
     (\<forall>p c n. no_dash p \<longrightarrow> no_dash c \<longrightarrow> count_existing reg (p @ ''-'' @ c) < n \<longrightarrow>
        make_id p c n \<notin> set (dict_keys reg))"

subsection \<open>Example data\<close>

text \<open>
  The constructor call \<^verbatim>\<open>Issue(number, title, body, labels, milestone, epic, estimated_time)\<close>
  with the defaults of the dataclass for the other fields.
\<close>

definition Issue ::
  "int \<Rightarrow> string \<Rightarrow> string \<Rightarrow> string list \<Rightarrow> string option \<Rightarrow> string option \<Rightarrow> string option \<Rightarrow> issue"
where
  "Issue n t b ls m e et =
     \<lparr>number = n, title = t, body = b, labels = ls, milestone = m, epic = e,
      estimated_time = et, is_epic = False, dependencies = [], global_id = None\<rparr>"

text \<open>An entry as \<open>assign_id\<close> stores it for repository \<open>v-ics-le\<close>, with a given title.\<close>

definition example_entry :: "string \<Rightarrow> string \<Rightarrow> string list \<Rightarrow> string \<Rightarrow> entry" where
  "example_entry gid c ls t =
     \<lparr>entry_global_id = gid, project = ''VICS'', component = c, local_number = 1,
      github_repo = ''v-ics-le'', github_number = None, entry_title = t,
      entry_labels = ls, entry_milestone = None, status = ''open''\<rparr>"

section \<open>Properties\<close>

subsection \<open>Dictionaries and counting\<close>

lemma count_loop_filter:
  "count_loop gids pre c = c + length (filter (prefix pre) gids)"
  by (induction gids arbitrary: c) (simp_all add: startswith_def)

lemma count_existing_filter:
  "count_existing reg pre = length (filter (prefix pre) (dict_keys reg))"
  by (simp add: count_existing_def count_loop_filter)

lemma dict_keys_setitem:
  "dict_keys (dict_setitem d k v) =
     (if k \<in> set (dict_keys d) then dict_keys d else dict_keys d @ [k])"
  by (induction d) (force simp: dict_keys_def)+

lemma map_of_setitem: "map_of (dict_setitem d k v) = (map_of d)(k \<mapsto> v)"
  by (induction d) (auto simp: fun_eq_iff)

subsection \<open>The counter format is injective\<close>

lemma digit_val_char: "d < 10 \<Longrightarrow> digit_val (digit_char d) = d"
  by (auto simp: less_Suc_eq eval_nat_numeral digit_val_def digit_char_def)

lemma read_nat_digits: "read_nat (digits n) = n"
proof (induction n rule: digits.induct)
  case (1 n)
  show ?case
  proof (cases "n < 10")
    case True
    then show ?thesis
      by (simp add: digits.simps [of n] read_nat_def digit_val_char)
  next
    case False
    with 1 have "read_nat (digits (n div 10)) = n div 10" by simp
    with False show ?thesis
      by (simp add: digits.simps [of n] read_nat_def digit_val_char)
  qed
qed

lemma read_nat_zeros: "read_nat (replicate k CHR ''0'' @ s) = read_nat s"
  by (induction k) (simp_all add: read_nat_def digit_val_def)

lemma read_nat_format: "read_nat (format_03d n) = n"
  by (simp add: format_03d_def read_nat_zeros read_nat_digits)

lemma format_03d_inj: "format_03d m = format_03d n \<Longrightarrow> m = n"
  by (metis read_nat_format)

lemma format_03d_1: "format_03d (Suc 0) = ''001''"
  by (simp add: format_03d_def digits.simps [of "Suc 0"] digit_char_def numeral_2_eq_2)

lemma format_03d_2: "format_03d (Suc (Suc 0)) = ''002''"
  by (simp add: format_03d_def digits.simps [of "Suc (Suc 0)"] digit_char_def numeral_2_eq_2)



subsection \<open>Codes contain no hyphen\<close>

lemma dash_split_inj:
  assumes "no_dash a" "no_dash b" "a @ CHR ''-'' # r = b @ CHR ''-'' # r'"
  shows "a = b \<and> r = r'"
proof -
  have "takeWhile (\<lambda>c. c \<noteq> CHR ''-'') (a @ CHR ''-'' # r) = a"
    using assms(1) by (simp add: takeWhile_append no_dash_def takeWhile_eq_all_conv [THEN iffD2])
  moreover have "takeWhile (\<lambda>c. c \<noteq> CHR ''-'') (b @ CHR ''-'' # r') = b"
    using assms(2) by (simp add: takeWhile_append no_dash_def takeWhile_eq_all_conv [THEN iffD2])
  ultimately have "a = b" using assms(3) by simp
  with assms(3) show ?thesis by simp
qed

lemma no_dash_COMPONENT_MAP: "list_all (\<lambda>(k, v). no_dash v) COMPONENT_MAP"
  by (simp add: COMPONENT_MAP_def no_dash_def)

lemma no_dash_PROJECT_CODES: "list_all (\<lambda>(k, v). no_dash v) PROJECT_CODES"
  by (simp add: PROJECT_CODES_def no_dash_def)

lemma label_match_no_dash: "label_match ls = Some c \<Longrightarrow> no_dash c"
proof (induction ls)
  case Nil
  then show ?case by simp
next
  case (Cons l ls)
  show ?case
  proof (cases "map_of COMPONENT_MAP (str_strip (str_lower l))")
    case None
    with Cons show ?thesis by simp
  next
    case (Some v)
    then have "(str_strip (str_lower l), v) \<in> set COMPONENT_MAP" by (rule map_of_SomeD)
    with no_dash_COMPONENT_MAP have "no_dash v" by (auto simp: list_all_iff)
    with Some Cons.prems show ?thesis by simp
  qed
qed

lemma get_component_code_no_dash: "no_dash (get_component_code ls)"
proof (cases "label_match ls")
  case None
  then show ?thesis by (simp add: get_component_code_def Let_def no_dash_def)
next
  case (Some c)
  then show ?thesis by (simp add: get_component_code_def label_match_no_dash)
qed

lemma partial_match_mem: "partial_match tab x = Some c \<Longrightarrow> c \<in> snd ` set tab"
  by (induction tab x rule: partial_match.induct) (auto split: if_splits)

lemma get_project_code_no_dash: "no_dash (get_project_code name)"
proof -
  have tab: "c \<in> snd ` set PROJECT_CODES \<Longrightarrow> no_dash c" for c
    using no_dash_PROJECT_CODES by (auto simp: list_all_iff)
  have misc: "no_dash ''MISC''" by (simp add: no_dash_def)
  have "no_dash (case map_of PROJECT_CODES x of Some code \<Rightarrow> code
                 | None \<Rightarrow> (case partial_match PROJECT_CODES x of Some code \<Rightarrow> code
                            | None \<Rightarrow> ''MISC''))" for x
  proof (cases "map_of PROJECT_CODES x")
    case (Some c)
    then have "c \<in> snd ` set PROJECT_CODES" by (force dest: map_of_SomeD)
    with Some show ?thesis by (simp add: tab)
  next
    case None
    then show ?thesis
      by (cases "partial_match PROJECT_CODES x") (simp_all add: misc tab partial_match_mem)
  qed
  then show ?thesis by (simp add: get_project_code_def Let_def)
qed

subsection \<open>Evaluations of the classifiers\<close>

lemma component_modbus_testing: "get_component_code [''modbus'', ''testing''] = ''PROTO''"
  by (simp add: get_component_code_def COMPONENT_MAP_def str_lower_def str_strip_def
      lower_char_def is_space_def)

lemma component_protocol: "get_component_code [''protocol''] = ''PROTO''"
  by (simp add: get_component_code_def COMPONENT_MAP_def str_lower_def str_strip_def
      lower_char_def is_space_def)

lemma component_rust: "get_component_code [''rust''] = ''RUST''"
  by (simp add: get_component_code_def COMPONENT_MAP_def str_lower_def str_strip_def
      lower_char_def is_space_def)

lemma component_no_labels: "get_component_code [] = ''MISC''"
  by (simp add: get_component_code_def str_lower_def sublist_code)

lemma project_v_ics_le: "get_project_code ''v-ics-le'' = ''VICS''"
  by (simp add: get_project_code_def PROJECT_CODES_def)

subsection \<open>Counting by prefix\<close>

text \<open>
  C8: for every registry and every prefix, \<open>_count_existing\<close> returns the number of
  records held whose key starts with the prefix as text; with the keys of a dict, which
  are distinct, that is the number of such keys. The match knows nothing of the hyphens:
  a record under \<open>VICS-RUST2-001\<close> counts for the prefix \<open>VICS-RUST\<close>.
\<close>

theorem count_existing_textual_prefix:
  "count_existing reg pre = length (filter (\<lambda>(gid, e). prefix pre gid) reg) \<and>
   (distinct (dict_keys reg) \<longrightarrow>
      count_existing reg pre = card {gid \<in> set (dict_keys reg). prefix pre gid}) \<and>
   count_existing [(''VICS-RUST2-001'', e)] ''VICS-RUST'' = 1"
proof -
  have "filter (prefix pre) (map fst reg) = map fst (filter (\<lambda>(gid, e). prefix pre gid) reg)"
    by (induction reg) auto
  then have a: "count_existing reg pre = length (filter (\<lambda>(gid, e). prefix pre gid) reg)"
    by (simp add: count_existing_filter dict_keys_def)
  have b: "count_existing reg pre = card {gid \<in> set (dict_keys reg). prefix pre gid}"
    if "distinct (dict_keys reg)"
  proof -
    have "{gid \<in> set (dict_keys reg). prefix pre gid}
          = {gid. prefix pre gid} \<inter> set (dict_keys reg)"
      by auto
    with that show ?thesis
      by (simp add: count_existing_filter distinct_length_filter)
  qed
  have c: "count_existing [(''VICS-RUST2-001'', e)] ''VICS-RUST'' = 1"
    by (simp add: count_existing_filter dict_keys_def)
  from a b c show ?thesis by blast
qed

theorem count_existing_textual_prefix_witness:
  "distinct (dict_keys [(''VICS-RUST-001'', example_entry ''VICS-RUST-001'' ''RUST'' [''rust''] ''a''),
                        (''VICS-NET-001'', example_entry ''VICS-NET-001'' ''NET'' [''tcp''] ''b''),
                        (''VICS-RUST2-001'', example_entry ''VICS-RUST2-001'' ''RUST2'' [] ''c'')]) \<and>
   count_existing [(''VICS-RUST-001'', example_entry ''VICS-RUST-001'' ''RUST'' [''rust''] ''a''),
                   (''VICS-NET-001'', example_entry ''VICS-NET-001'' ''NET'' [''tcp''] ''b''),
                   (''VICS-RUST2-001'', example_entry ''VICS-RUST2-001'' ''RUST2'' [] ''c'')]
      ''VICS-RUST'' = 2 \<and>
   card {gid \<in> set (dict_keys
                      [(''VICS-RUST-001'', example_entry ''VICS-RUST-001'' ''RUST'' [''rust''] ''a''),
                       (''VICS-NET-001'', example_entry ''VICS-NET-001'' ''NET'' [''tcp''] ''b''),
                       (''VICS-RUST2-001'', example_entry ''VICS-RUST2-001'' ''RUST2'' [] ''c'')]).
         prefix ''VICS-RUST'' gid} = 2"
proof -
  let ?reg = "[(''VICS-RUST-001'', example_entry ''VICS-RUST-001'' ''RUST'' [''rust''] ''a''),
               (''VICS-NET-001'', example_entry ''VICS-NET-001'' ''NET'' [''tcp''] ''b''),
               (''VICS-RUST2-001'', example_entry ''VICS-RUST2-001'' ''RUST2'' [] ''c'')]"
  have d: "distinct (dict_keys ?reg)"
    by (simp add: dict_keys_def)
  have n: "length (filter (\<lambda>(gid, e). prefix ''VICS-RUST'' gid) ?reg) = 2"
    by simp
  from count_existing_textual_prefix [of ?reg "''VICS-RUST''"]
  have a: "count_existing ?reg ''VICS-RUST''
           = length (filter (\<lambda>(gid, e). prefix ''VICS-RUST'' gid) ?reg)"
    and b: "distinct (dict_keys ?reg) \<longrightarrow>
            count_existing ?reg ''VICS-RUST''
            = card {gid \<in> set (dict_keys ?reg). prefix ''VICS-RUST'' gid}"
    by blast+
  from a n have c: "count_existing ?reg ''VICS-RUST'' = 2"
    by (simp only:)
  from b d c have "card {gid \<in> set (dict_keys ?reg). prefix ''VICS-RUST'' gid} = 2"
    by (simp only:)
  with d c show ?thesis
    by (simp only: simp_thms)
qed

subsection \<open>The scenario of the specification\<close>

text \<open>
  C7: an assigner made for \<open>v-ics-le\<close> with no registry file has project code \<open>VICS\<close>;
  the labels \<open>modbus, testing\<close> resolve to \<open>PROTO\<close>; assigning an item with these
  labels and then an item with the label \<open>protocol\<close> returns \<open>VICS-PROTO-001\<close> and
  then \<open>VICS-PROTO-002\<close>, whatever the other fields of the two items are.
\<close>

theorem scenario_vics_proto:
  fixes i1 i2 :: issue
  shows
    "project_code (fst (init ''v-ics-le'' None)) = ''VICS'' \<and>
     registry (fst (init ''v-ics-le'' None)) = [] \<and>
     get_component_code [''modbus'', ''testing''] = ''PROTO'' \<and>
     (\<exists>s1 i1' s2 i2'.
        assign_id (fst (init ''v-ics-le'' None)) (i1\<lparr>labels := [''modbus'', ''testing'']\<rparr>)
          = Inr (''VICS-PROTO-001'', s1, i1') \<and>
        assign_id s1 (i2\<lparr>labels := [''protocol'']\<rparr>) = Inr (''VICS-PROTO-002'', s2, i2'))"
  by (simp add: init_def Let_def project_v_ics_le component_modbus_testing component_protocol
      assign_id_def load_registry_def count_existing_filter dict_keys_def
      format_03d_1 format_03d_2)

subsection \<open>Items without labels\<close>

text \<open>
  C10: the empty list of labels resolves to \<open>MISC\<close>, so for an item without labels an
  assigner whose registry is empty returns the project code followed by \<open>-MISC-001\<close>.
\<close>

theorem no_labels_misc_001:
  "get_component_code [] = ''MISC'' \<and>
   (labels i = [] \<longrightarrow> registry s = [] \<longrightarrow>
      (\<exists>s' i'. assign_id s i = Inr (project_code s @ ''-MISC-001'', s', i')))"
  by (simp add: component_no_labels assign_id_def Let_def count_existing_filter dict_keys_def
      format_03d_1)

theorem no_labels_misc_001_witness:
  "labels (Issue 0 ''Epic one'' ''text'' [] None None None) = [] \<and>
   registry (fst (init ''lunaco-sim'' None)) = [] \<and>
   (\<exists>s' i'. assign_id (fst (init ''lunaco-sim'' None))
               (Issue 0 ''Epic one'' ''text'' [] None None None)
             = Inr (''LUNACO-MISC-001'', s', i'))"
proof -
  have l: "labels (Issue 0 ''Epic one'' ''text'' [] None None None) = []"
    by (simp add: Issue_def)
  have r: "registry (fst (init ''lunaco-sim'' None)) = []"
    by (simp add: init_def Let_def load_registry_def)
  have p: "project_code (fst (init ''lunaco-sim'' None)) = ''LUNACO''"
    by (simp add: init_def Let_def get_project_code_def PROJECT_CODES_def)
  from no_labels_misc_001 [of "Issue 0 ''Epic one'' ''text'' [] None None None"
      "fst (init ''lunaco-sim'' None)"] l r p
  show ?thesis by simp
qed

subsection \<open>What one assignment does\<close>

lemma assign_id_unfold:
  "\<exists>e. assign_id s i =
     Inr (make_id (project_code s) (get_component_code (labels i))
            (Suc (count_existing (registry s)
                    (project_code s @ ''-'' @ get_component_code (labels i)))),
          s\<lparr>registry := dict_setitem (registry s)
               (make_id (project_code s) (get_component_code (labels i))
                  (Suc (count_existing (registry s)
                          (project_code s @ ''-'' @ get_component_code (labels i))))) e\<rparr>,
          i\<lparr>global_id := Some (make_id (project_code s) (get_component_code (labels i))
                  (Suc (count_existing (registry s)
                          (project_code s @ ''-'' @ get_component_code (labels i)))))\<rparr>)"
  by (simp add: assign_id_def Let_def make_id_def) (rule exI, rule refl)

lemma prefix_make_id: "prefix (p @ ''-'' @ c) (make_id p c n)"
  by (simp add: make_id_def)


lemma make_id_inj:
  assumes "no_dash p" "no_dash p'" "no_dash c" "no_dash c'"
    and "make_id p c n = make_id p' c' n'"
  shows "p = p' \<and> c = c' \<and> n = n'"
proof -
  from assms(5) have "p @ CHR ''-'' # (c @ CHR ''-'' # format_03d n)
      = p' @ CHR ''-'' # (c' @ CHR ''-'' # format_03d n')"
    by (simp add: make_id_def)
  with assms(1,2) have p: "p = p'" and r: "c @ CHR ''-'' # format_03d n = c' @ CHR ''-'' # format_03d n'"
    using dash_split_inj by blast+
  from r assms(3,4) have "c = c'" and "format_03d n = format_03d n'"
    using dash_split_inj by blast+
  with p show ?thesis by (simp add: format_03d_inj)
qed


lemma count_setitem_new:
  "k \<notin> set (dict_keys reg) \<Longrightarrow>
   count_existing (dict_setitem reg k e) pre
     = count_existing reg pre + (if prefix pre k then 1 else 0)"
  by (simp add: count_existing_filter dict_keys_setitem)



subsection \<open>Sequence numbers under one prefix\<close>



subsection \<open>The numbering invariant of a registry lifetime\<close>

lemma numbering_inv_keys:
  "numbering_inv reg =
     (\<forall>p c n. no_dash p \<longrightarrow> no_dash c \<longrightarrow>
        length (filter (prefix (p @ ''-'' @ c)) (dict_keys reg)) < n \<longrightarrow>
        make_id p c n \<notin> set (dict_keys reg))"
  by (simp add: numbering_inv_def count_existing_filter)

lemma numbering_inv_same_keys:
  "dict_keys reg' = dict_keys reg \<Longrightarrow> numbering_inv reg \<Longrightarrow> numbering_inv reg'"
  by (simp add: numbering_inv_keys)

lemma numbering_inv_step:
  assumes "numbering_inv reg" "no_dash p" "no_dash c"
  shows "make_id p c (Suc (count_existing reg (p @ ''-'' @ c))) \<notin> set (dict_keys reg)"
    and "numbering_inv (dict_setitem reg (make_id p c (Suc (count_existing reg (p @ ''-'' @ c)))) e)"
proof -
  let ?k = "count_existing reg (p @ ''-'' @ c)"
  let ?g = "make_id p c (Suc ?k)"
  show new: "?g \<notin> set (dict_keys reg)"
    using assms by (simp add: numbering_inv_def)
  show "numbering_inv (dict_setitem reg ?g e)"
    unfolding numbering_inv_def
  proof (intro allI impI)
    fix p' c' n'
    assume d: "no_dash p'" "no_dash c'"
      and n: "count_existing (dict_setitem reg ?g e) (p' @ ''-'' @ c') < n'"
    from n new have old: "count_existing reg (p' @ ''-'' @ c') < n'"
      by (simp add: count_setitem_new split: if_splits)
    with assms(1) d have "make_id p' c' n' \<notin> set (dict_keys reg)"
      by (simp add: numbering_inv_def)
    moreover have "make_id p' c' n' \<noteq> ?g"
    proof
      assume "make_id p' c' n' = ?g"
      with make_id_inj [OF d(1) assms(2) d(2) assms(3)]
      have "p' = p" "c' = c" "n' = Suc ?k" by blast+
      with n new show False
        using prefix_make_id [of p c "Suc ?k"] by (simp add: count_setitem_new)
    qed
    ultimately show "make_id p' c' n' \<notin> set (dict_keys (dict_setitem reg ?g e))"
      using new by (simp add: dict_keys_setitem)
  qed
qed

lemma dict_keys_update_present:
  "map_of reg gid = Some e \<Longrightarrow> dict_keys (dict_setitem reg gid e') = dict_keys reg"
proof -
  assume "map_of reg gid = Some e"
  then have "(gid, e) \<in> set reg" by (rule map_of_SomeD)
  then have "gid \<in> set (dict_keys reg)" by (force simp: dict_keys_def)
  then show ?thesis by (simp add: dict_keys_setitem)
qed

lemma update_github_number_keys:
  "update_github_number s gid n = Inr s' \<Longrightarrow> dict_keys (registry s') = dict_keys (registry s)"
  by (auto simp: update_github_number_def save_registry_def dict_keys_update_present
      split: option.splits)

lemma numbering_inv_sorted:
  assumes "numbering_inv reg"
  shows "numbering_inv (sort_key fst reg)"
proof -
  have "filter P (dict_keys (sort_key fst reg)) = map fst (sort_key fst (filter (P \<circ> fst) reg))" for P
    by (simp add: dict_keys_def filter_map filter_sort)
  then have "length (filter P (dict_keys (sort_key fst reg))) = length (filter P (dict_keys reg))" for P
    by (simp add: dict_keys_def filter_map)
  moreover have "set (dict_keys (sort_key fst reg)) = set (dict_keys reg)"
    by (simp add: dict_keys_def)
  ultimately show ?thesis
    using assms by (simp add: numbering_inv_keys)
qed

lemma lifetime_numbering_inv: "registry_lifetime reg \<Longrightarrow> numbering_inv reg"
proof (induction rule: registry_lifetime.induct)
  case fresh
  show ?case by (simp add: numbering_inv_def load_registry_def dict_keys_def)
next
  case (assigned s i gid s' i')
  from assign_id_unfold [of s i] assigned.hyps(3)
  obtain e where "registry s' = dict_setitem (registry s)
      (make_id (project_code s) (get_component_code (labels i))
         (Suc (count_existing (registry s)
                 (project_code s @ ''-'' @ get_component_code (labels i))))) e"
    by auto
  moreover have "no_dash (project_code s)"
    using assigned.hyps(2) by (simp add: get_project_code_no_dash)
  ultimately show ?case
    using numbering_inv_step(2) [OF assigned.IH _ get_component_code_no_dash] by simp
next
  case (updated s gid n s')
  then show ?case
    using numbering_inv_same_keys update_github_number_keys by blast
next
  case (reloaded s)
  then show ?case
    by (simp add: save_registry_def load_registry_def numbering_inv_sorted)
qed

lemma assign_all_distinct:
  assumes "numbering_inv (registry s)" "no_dash (project_code s)"
  shows "\<exists>gids s'. assign_all s items = Inr (gids, s') \<and> length gids = length items \<and>
           distinct gids \<and> set gids \<inter> set (dict_keys (registry s)) = {}"
  using assms
proof (induction items arbitrary: s)
  case Nil
  then show ?case by simp
next
  case (Cons i items)
  let ?c = "get_component_code (labels i)"
  let ?g = "make_id (project_code s) ?c (Suc (count_existing (registry s) (project_code s @ ''-'' @ ?c)))"
  from assign_id_unfold [of s i]
  obtain e where a: "assign_id s i
      = Inr (?g, s\<lparr>registry := dict_setitem (registry s) ?g e\<rparr>, i\<lparr>global_id := Some ?g\<rparr>)"
    by auto
  let ?s1 = "s\<lparr>registry := dict_setitem (registry s) ?g e\<rparr>"
  have new: "?g \<notin> set (dict_keys (registry s))"
    using numbering_inv_step(1) [OF Cons.prems(1) Cons.prems(2) get_component_code_no_dash] .
  have "numbering_inv (registry ?s1)"
    using numbering_inv_step(2) [OF Cons.prems(1) Cons.prems(2) get_component_code_no_dash]
    by simp
  moreover have "no_dash (project_code ?s1)" using Cons.prems(2) by simp
  ultimately obtain gids s' where r: "assign_all ?s1 items = Inr (gids, s')"
    and l: "length gids = length items" and d: "distinct gids"
    and k: "set gids \<inter> set (dict_keys (registry ?s1)) = {}"
    using Cons.IH by blast
  from new have keys1: "set (dict_keys (registry ?s1)) = insert ?g (set (dict_keys (registry s)))"
    by (simp add: dict_keys_setitem)
  with k have "?g \<notin> set gids" and "set gids \<inter> set (dict_keys (registry s)) = {}"
    by auto
  with a r l d new show ?case by simp
qed

subsection \<open>Uniqueness\<close>

text \<open>
  C2: in a registry lifetime (the registry started empty and has only been changed by
  assignments, updates of the remote number and saving and loading; no record was ever
  deleted), every sequence of \<open>assign_id\<close> calls of an assigner returns pairwise
  distinct identifiers, one per item, and none of them is a key the registry held before.
\<close>

theorem assigned_ids_distinct:
  assumes "registry_lifetime (registry s)"
    and "project_code s = get_project_code (repo_name s)"
  shows "\<exists>gids s'. assign_all s items = Inr (gids, s') \<and> length gids = length items \<and>
           distinct gids \<and> set gids \<inter> set (dict_keys (registry s)) = {}"
proof -
  from assms(1) have "numbering_inv (registry s)" by (rule lifetime_numbering_inv)
  moreover from assms(2) have "no_dash (project_code s)"
    by (simp add: get_project_code_no_dash)
  ultimately show ?thesis by (rule assign_all_distinct)
qed

theorem assigned_ids_distinct_witness:
  "registry_lifetime
     (registry \<lparr>repo_name = ''v-ics-le'', project_code = ''VICS'',
        registry_file =
          Some [(''VICS-RUST-001'', example_entry ''VICS-RUST-001'' ''RUST'' [''rust''] ''First'')],
        registry = [(''VICS-RUST-001'', example_entry ''VICS-RUST-001'' ''RUST'' [''rust''] ''First'')]\<rparr>) \<and>
   get_project_code ''v-ics-le'' = ''VICS'' \<and>
   (\<exists>gids s'.
      assign_all
        \<lparr>repo_name = ''v-ics-le'', project_code = ''VICS'',
          registry_file =
            Some [(''VICS-RUST-001'', example_entry ''VICS-RUST-001'' ''RUST'' [''rust''] ''First'')],
          registry = [(''VICS-RUST-001'', example_entry ''VICS-RUST-001'' ''RUST'' [''rust''] ''First'')]\<rparr>
        [Issue 2 ''Second'' ''text'' [''rust''] None None None,
         Issue 3 ''Third'' ''text'' [''modbus'', ''testing''] None None None,
         Issue 4 ''Fourth'' ''text'' [''rust''] None None None]
      = Inr (gids, s') \<and> length gids = 3 \<and> distinct gids \<and>
      ''VICS-RUST-001'' \<notin> set gids)"
proof -
  let ?R = "[(''VICS-RUST-001'', example_entry ''VICS-RUST-001'' ''RUST'' [''rust''] ''First'')]"
  let ?s = "\<lparr>repo_name = ''v-ics-le'', project_code = ''VICS'', registry_file = Some ?R,
             registry = ?R\<rparr>"
  let ?fresh = "fst (init ''v-ics-le'' None)"
  let ?items = "[Issue 2 ''Second'' ''text'' [''rust''] None None None,
                 Issue 3 ''Third'' ''text'' [''modbus'', ''testing''] None None None,
                 Issue 4 ''Fourth'' ''text'' [''rust''] None None None]"
  have s0: "?fresh = \<lparr>repo_name = ''v-ics-le'', project_code = ''VICS'', registry_file = None,
                   registry = load_registry None\<rparr>"
    by (simp add: init_def Let_def project_v_ics_le)
  have first: "assign_id ?fresh (Issue 1 ''First'' ''text'' [''rust''] None None None)
      = Inr (''VICS-RUST-001'', ?fresh\<lparr>registry := ?R\<rparr>,
             (Issue 1 ''First'' ''text'' [''rust''] None None None)\<lparr>global_id := Some ''VICS-RUST-001''\<rparr>)"
    by (simp add: s0 assign_id_def Let_def Issue_def component_rust load_registry_def
        count_existing_filter dict_keys_def format_03d_1 example_entry_def)
  have "registry_lifetime (registry ?fresh)"
    using registry_lifetime.fresh by (simp add: s0)
  moreover have "project_code ?fresh = get_project_code (repo_name ?fresh)"
    by (simp add: s0 project_v_ics_le)
  ultimately have "registry_lifetime (registry (?fresh\<lparr>registry := ?R\<rparr>))"
    using first by (rule registry_lifetime.assigned)
  then have l: "registry_lifetime (registry ?s)"
    by simp
  have p: "project_code ?s = get_project_code (repo_name ?s)"
    by (simp add: project_v_ics_le)
  from assigned_ids_distinct [OF l p, of ?items]
  obtain gids s' where r: "assign_all ?s ?items = Inr (gids, s')"
    and n: "length gids = length ?items" and d: "distinct gids"
    and k: "set gids \<inter> set (dict_keys (registry ?s)) = {}"
    by blast
  from n have n3: "length gids = 3" by simp
  from k have "''VICS-RUST-001'' \<notin> set gids" by (auto simp: dict_keys_def)
  with l r n3 d project_v_ics_le show ?thesis by blast
qed

subsection \<open>Component code resolution\<close>

lemma lower_char_eq: "lower_char c = lowercase_char c"
proof (cases c)
  case (Char b0 b1 b2 b3 b4 b5 b6 b7)
  then show ?thesis
    by (cases b0; cases b1; cases b2; cases b3; cases b4; cases b5; cases b6; cases b7)
       (simp_all add: lower_char_def lowercase_char_def Let_def char_of_def bit_Suc_0_iff)
qed

lemma is_space_eq: "is_space c = whitespace_char c"
proof (cases c)
  case (Char b0 b1 b2 b3 b4 b5 b6 b7)
  then show ?thesis
    by (cases b0; cases b1; cases b2; cases b3; cases b4; cases b5; cases b6; cases b7)
       (simp_all add: is_space_def whitespace_char_def Let_def)
qed

lemma lowercase_eq: "lowercase s = str_lower s"
  by (simp add: lowercase_def str_lower_def lower_char_eq)

lemma trim_eq: "trim s = str_strip s"
proof -
  have w: "whitespace_char = is_space"
    by (simp add: fun_eq_iff is_space_eq)
  have "rev (dropWhile is_space (rev t))
        = take (length t - length (takeWhile is_space (rev t))) t" for t
    by (simp add: dropWhile_eq_drop rev_drop)
  then show ?thesis
    by (simp add: trim_def str_strip_def Let_def w)
qed

lemma normalize_label_eq: "normalize_label l = str_strip (str_lower l)"
  by (simp add: normalize_label_def trim_eq lowercase_eq)

lemma str_join_Cons: "str_join sep (x # xs) = x @ concat (map (\<lambda>y. sep @ y) xs)"
  by (induction xs arbitrary: x) simp_all

lemma join_spaces_eq: "join_spaces ls = str_join '' '' ls"
proof (cases ls)
  case Nil
  then show ?thesis by (simp add: join_spaces_def)
next
  case (Cons l rest)
  then show ?thesis
    unfolding join_spaces_def by (simp only: list.case str_join_Cons)
qed

lemma label_match_map_filter:
  "label_match ls =
     (case List.map_filter (\<lambda>l. map_of COMPONENT_MAP (normalize_label l)) ls of
        [] \<Rightarrow> None
      | code # others \<Rightarrow> Some code)"
  by (induction ls)
    (simp_all add: List.map_filter_simps normalize_label_eq split: option.splits)

lemma heuristics_chain:
  "(if sublist ''rust'' t \<or> sublist ''ffi'' t then ''RUST''
    else if sublist ''modbus'' t \<or> sublist ''protocol'' t then ''PROTO''
    else if sublist ''godot'' t then ''GODOT''
    else if sublist ''model'' t \<or> sublist ''physics'' t then ''MODEL''
    else if sublist ''config'' t then ''CONFIG''
    else ''MISC'')
   = (case find (\<lambda>(pats, code). list_ex (\<lambda>p. sublist p t) pats) HEURISTICS of
        Some (pats, code) \<Rightarrow> code
      | None \<Rightarrow> ''MISC'')"
  by (simp add: HEURISTICS_def)

text \<open>
  C5, as the code has it: for every list of labels, \<open>_get_component_code\<close> returns
  the code of the first label, in the given order, whose lowercased and trimmed text is
  a key of the table; the labels \<open>rust, networking\<close> give the code of \<open>rust\<close>, which
  is \<open>RUST\<close>, and not \<open>NET\<close>, and a first label \<open>Ci\<close> between whitespace gives
  \<open>BUILD\<close>. When no label is in the table, the label text goes
  through the ordered substring heuristics, the first that matches gives the code, and
  when none matches the result is \<open>MISC\<close>. The label text is the labels joined with a
  single space between one and the next, in lowercase, the labels not trimmed.
\<close>

theorem component_code_first_match:
  "get_component_code ls = resolveComponentCode_joined ls \<and>
   get_component_code [''rust'', ''networking''] = ''RUST'' \<and>
   get_component_code [[CHR 0x85] @ '' Ci'' @ [CHR 0xA0], ''rust''] = ''BUILD'' \<and>
   map_of COMPONENT_MAP ''rust'' = Some ''RUST'' \<and>
   map_of COMPONENT_MAP ''networking'' = Some ''NET''"
proof -
  have "get_component_code ls = resolveComponentCode_joined ls"
    unfolding get_component_code_def resolveComponentCode_joined_def resolve_component_def
      Let_def label_match_map_filter heuristics_chain lowercase_eq join_spaces_eq
    by (simp split: list.splits)
  moreover have "get_component_code [''rust'', ''networking''] = ''RUST''"
    by (simp add: get_component_code_def COMPONENT_MAP_def str_lower_def str_strip_def
        lower_char_def is_space_def)
  moreover have "get_component_code [[CHR 0x85] @ '' Ci'' @ [CHR 0xA0], ''rust''] = ''BUILD''"
    by (simp add: get_component_code_def COMPONENT_MAP_def str_lower_def str_strip_def
        lower_char_def is_space_def)
  moreover have "map_of COMPONENT_MAP ''rust'' = Some ''RUST''"
    and "map_of COMPONENT_MAP ''networking'' = Some ''NET''"
    by (simp_all add: COMPONENT_MAP_def)
  ultimately show ?thesis by simp
qed

text \<open>
  The claim C5 as stated tests the concatenated label text. The labels \<open>mod, bus\<close> are
  not in the table; concatenated they read \<open>modbus\<close>, which has the pattern of the
  protocol heuristic, but the code tests \<open>mod bus\<close>, which has no pattern, and returns
  \<open>MISC\<close>.
\<close>

theorem component_code_concatenation_counterexample:
  "get_component_code [''mod'', ''bus''] = ''MISC'' \<and>
   resolveComponentCode [''mod'', ''bus''] = ''PROTO'' \<and>
   get_component_code [''mod'', ''bus''] \<noteq> resolveComponentCode [''mod'', ''bus'']"
proof -
  have a: "get_component_code [''mod'', ''bus''] = ''MISC''"
    by (simp add: get_component_code_def COMPONENT_MAP_def str_lower_def str_strip_def
        lower_char_def is_space_def sublist_code)
  have b: "resolveComponentCode [''mod'', ''bus''] = ''PROTO''"
    by (simp add: resolveComponentCode_def resolve_component_def normalize_label_eq
        lowercase_eq List.map_filter_simps COMPONENT_MAP_def HEURISTICS_def str_lower_def
        str_strip_def lower_char_def is_space_def sublist_code)
  from a b show ?thesis by simp
qed

subsection \<open>Project code resolution\<close>

lemma split_nonempty: "str_split s c \<noteq> []"
  by (induction s) (auto split: list.splits)

lemma split_single: "(tl (str_split s c) = []) = (c \<notin> set s)"
  using split_nonempty by (induction s) (auto split: list.splits)

lemma trailing_no_sep:
  assumes "c \<notin> set s"
  shows "rev (takeWhile (\<lambda>x. x \<noteq> c) (rev s)) = s"
proof -
  from assms have "\<forall>x\<in>set (rev s). x \<noteq> c"
    by auto
  then have "takeWhile (\<lambda>x. x \<noteq> c) (rev s) = rev s"
    by (rule takeWhile_eq_all_conv [THEN iffD2])
  then show ?thesis by (simp only: rev_rev_ident)
qed

lemma last_split: "last (str_split s c) = rev (takeWhile (\<lambda>x. x \<noteq> c) (rev s))"
proof (induction s)
  case Nil
  show ?case by simp
next
  case (Cons x xs)
  obtain w ws where sp: "str_split xs c = w # ws"
    using split_nonempty [of xs c] by (cases "str_split xs c") auto
  have single: "(ws = []) = (c \<notin> set xs)"
    using split_single [of xs c] sp by simp
  show ?case
  proof (cases "c \<in> set xs")
    case True
    then have "rev (takeWhile (\<lambda>x. x \<noteq> c) (rev (x # xs))) = rev (takeWhile (\<lambda>x. x \<noteq> c) (rev xs))"
      by (auto simp: takeWhile_append)
    moreover from True single sp have "last (str_split (x # xs) c) = last (str_split xs c)"
      by auto
    ultimately show ?thesis using Cons.IH by simp
  next
    case False
    with single sp Cons.IH have w: "w = xs" "ws = []"
      by (simp_all add: trailing_no_sep)
    from False have "rev (takeWhile (\<lambda>x. x \<noteq> c) (rev (x # xs))) = (if x = c then xs else x # xs)"
      by (auto simp: takeWhile_append takeWhile_eq_all_conv [THEN iffD2])
    with sp w show ?thesis by simp
  qed
qed

lemma clean_name_trailing:
  "(if CHR ''/'' \<in> set name then last (str_split name CHR ''/'') else name) = trailing_segment name"
  by (simp add: trailing_segment_def last_split trailing_no_sep)

lemma partial_match_find:
  "partial_match tab x =
     (case find (\<lambda>(key, code). sublist key x \<or> sublist x key) tab of
        Some (key, code) \<Rightarrow> Some code
      | None \<Rightarrow> None)"
  by (induction tab x rule: partial_match.induct) simp_all

lemma project_unknown: "get_project_code ''totally-unknown-repo'' = ''MISC''"
  by (simp add: get_project_code_def PROJECT_CODES_def sublist_code)

text \<open>
  C6: for every repository identifier, \<open>_get_project_code\<close> keeps the text after the
  last slash, returns the table code when that segment is a key, otherwise the code of
  the first entry, in the order of the table, whose key is a substring of the segment
  or contains the segment, and otherwise \<open>MISC\<close>. The constructor prints its warning
  exactly when the code is \<open>MISC\<close>, and returns the assigner all the same. For
  \<open>totally-unknown-repo\<close> the code is \<open>MISC\<close> and the warning is printed.
\<close>

theorem project_code_resolution:
  "get_project_code repo = resolveProjectCode repo \<and>
   project_code (fst (init repo file)) = get_project_code repo \<and>
   (snd (init repo file) \<noteq> []) = (get_project_code repo = ''MISC'') \<and>
   get_project_code ''totally-unknown-repo'' = ''MISC'' \<and>
   snd (init ''totally-unknown-repo'' file)
     = [''WARNING: Repository '' @ [CHR 0x27] @ ''totally-unknown-repo'' @ [CHR 0x27]
          @ '' not in PROJECT_CODES, using MISC'',
        ''Consider adding to PROJECT_CODES dictionary'']"
proof -
  have "get_project_code repo = resolveProjectCode repo"
    unfolding get_project_code_def resolveProjectCode_def Let_def clean_name_trailing
      partial_match_find
    by (simp split: option.splits)
  moreover have "project_code (fst (init repo file)) = get_project_code repo"
    and "(snd (init repo file) \<noteq> []) = (get_project_code repo = ''MISC'')"
    by (simp_all add: init_def Let_def)
  moreover have "snd (init ''totally-unknown-repo'' file)
     = [''WARNING: Repository '' @ [CHR 0x27] @ ''totally-unknown-repo'' @ [CHR 0x27]
          @ '' not in PROJECT_CODES, using MISC'',
        ''Consider adding to PROJECT_CODES dictionary'']"
    by (simp add: init_def Let_def project_unknown)
  ultimately show ?thesis using project_unknown by simp
qed

subsection \<open>Updating the remote number\<close>

lemma dict_setitem_twice: "dict_setitem (dict_setitem d k v) k w = dict_setitem d k w"
  by (induction d) auto

lemma init_registry: "registry (fst (init name (Some reg))) = reg"
  by (simp add: init_def Let_def load_registry_def)

lemma init_v_ics_le:
  "fst (init ''v-ics-le'' file)
   = \<lparr>repo_name = ''v-ics-le'', project_code = ''VICS'', registry_file = file,
      registry = load_registry file\<rparr>"
  by (simp add: init_def Let_def project_v_ics_le)

text \<open>
  C9: when the registry holds a record for \<open>g\<close>, \<open>update_github_number\<close> with \<open>g\<close> and
  \<open>v\<close> returns without error, and a second call with the same arguments returns
  without error and leaves the assigner, its registry and the registry file, exactly as
  the first call left them; the record is the old one with the remote number \<open>v\<close>.
\<close>

theorem update_github_number_idempotent:
  assumes "map_of (registry s) g = Some e"
  shows "\<exists>s1. update_github_number s g v = Inr s1 \<and> update_github_number s1 g v = Inr s1 \<and>
           map_of (registry s1) g = Some (e\<lparr>github_number := Some v\<rparr>)"
  using assms
  by (simp add: update_github_number_def save_registry_def map_of_setitem dict_setitem_twice)

theorem update_github_number_idempotent_witness:
  "map_of (registry (fst (init ''v-ics-le''
       (Some [(''VICS-RUST-001'', example_entry ''VICS-RUST-001'' ''RUST'' [''rust''] ''First'')]))))
     ''VICS-RUST-001''
     = Some (example_entry ''VICS-RUST-001'' ''RUST'' [''rust''] ''First'') \<and>
   (\<exists>s1. update_github_number (fst (init ''v-ics-le''
            (Some [(''VICS-RUST-001'', example_entry ''VICS-RUST-001'' ''RUST'' [''rust''] ''First'')])))
           ''VICS-RUST-001'' 42 = Inr s1 \<and>
         update_github_number s1 ''VICS-RUST-001'' 42 = Inr s1 \<and>
         map_of (registry s1) ''VICS-RUST-001''
           = Some ((example_entry ''VICS-RUST-001'' ''RUST'' [''rust''] ''First'')
                     \<lparr>github_number := Some 42\<rparr>))"
proof -
  let ?R = "[(''VICS-RUST-001'', example_entry ''VICS-RUST-001'' ''RUST'' [''rust''] ''First'')]"
  have m: "map_of (registry (fst (init ''v-ics-le'' (Some ?R)))) ''VICS-RUST-001''
           = Some (example_entry ''VICS-RUST-001'' ''RUST'' [''rust''] ''First'')"
    by (simp add: init_registry)
  from update_github_number_idempotent [OF m, of 42] m show ?thesis
    by (simp only: simp_thms)
qed

text \<open>
  C4, as the code has it: \<open>update_github_number\<close> never fails. For an identifier
  that is not in the registry it changes nothing, neither the registry nor the file,
  and raises no \<open>NotFound\<close>. For an identifier that is in the registry it sets the
  remote number of that record, leaves every other record and the order of the keys as
  they are, and writes the registry to the file.
\<close>

theorem update_github_number_total:
  "(map_of (registry s) gid = None \<longrightarrow> update_github_number s gid n = Inr s) \<and>
   (\<forall>e. map_of (registry s) gid = Some e \<longrightarrow>
      (\<exists>s'. update_github_number s gid n = Inr s' \<and>
            map_of (registry s') = (map_of (registry s))(gid \<mapsto> e\<lparr>github_number := Some n\<rparr>) \<and>
            dict_keys (registry s') = dict_keys (registry s) \<and>
            registry_file s' = Some (sort_key fst (registry s')) \<and>
            repo_name s' = repo_name s \<and> project_code s' = project_code s))"
proof -
  have "dict_keys (dict_setitem (registry s) gid e') = dict_keys (registry s)"
    if "map_of (registry s) gid = Some e" for e e'
  proof -
    from that have "(gid, e) \<in> set (registry s)" by (rule map_of_SomeD)
    then have "gid \<in> set (dict_keys (registry s))" by (force simp: dict_keys_def)
    then show ?thesis by (simp add: dict_keys_setitem)
  qed
  then show ?thesis
    by (simp add: update_github_number_def save_registry_def map_of_setitem)
qed

theorem update_github_number_total_witness:
  "map_of (registry (fst (init ''v-ics-le'' None))) ''VICS-RUST-001'' = None \<and>
   update_github_number (fst (init ''v-ics-le'' None)) ''VICS-RUST-001'' 7
     = Inr (fst (init ''v-ics-le'' None)) \<and>
   map_of (registry (fst (init ''v-ics-le''
       (Some [(''VICS-RUST-001'', example_entry ''VICS-RUST-001'' ''RUST'' [''rust''] ''First'')]))))
     ''VICS-RUST-001''
     = Some (example_entry ''VICS-RUST-001'' ''RUST'' [''rust''] ''First'') \<and>
   (\<exists>s'. update_github_number (fst (init ''v-ics-le''
            (Some [(''VICS-RUST-001'', example_entry ''VICS-RUST-001'' ''RUST'' [''rust''] ''First'')])))
           ''VICS-RUST-001'' 7 = Inr s' \<and>
         map_of (registry s') ''VICS-RUST-001''
           = Some ((example_entry ''VICS-RUST-001'' ''RUST'' [''rust''] ''First'')
                     \<lparr>github_number := Some 7\<rparr>) \<and>
         registry_file s' = Some (sort_key fst (registry s')))"
proof -
  let ?R = "[(''VICS-RUST-001'', example_entry ''VICS-RUST-001'' ''RUST'' [''rust''] ''First'')]"
  let ?E = "example_entry ''VICS-RUST-001'' ''RUST'' [''rust''] ''First''"
  have n: "map_of (registry (fst (init ''v-ics-le'' None))) ''VICS-RUST-001'' = None"
    by (simp add: init_v_ics_le load_registry_def)
  have m: "map_of (registry (fst (init ''v-ics-le'' (Some ?R)))) ''VICS-RUST-001'' = Some ?E"
    by (simp add: init_registry)
  from update_github_number_total [of "fst (init ''v-ics-le'' None)" "''VICS-RUST-001''" 7] n
  have a: "update_github_number (fst (init ''v-ics-le'' None)) ''VICS-RUST-001'' 7
           = Inr (fst (init ''v-ics-le'' None))"
    by blast
  from update_github_number_total [of "fst (init ''v-ics-le'' (Some ?R))" "''VICS-RUST-001''" 7] m
  obtain s' where u: "update_github_number (fst (init ''v-ics-le'' (Some ?R))) ''VICS-RUST-001'' 7 = Inr s'"
    and r: "map_of (registry s')
            = (map_of (registry (fst (init ''v-ics-le'' (Some ?R)))))
                (''VICS-RUST-001'' \<mapsto> ?E\<lparr>github_number := Some 7\<rparr>)"
    and f: "registry_file s' = Some (sort_key fst (registry s'))"
    by blast
  from r have "map_of (registry s') ''VICS-RUST-001'' = Some (?E\<lparr>github_number := Some 7\<rparr>)"
    by simp
  with n a m u f show ?thesis by blast
qed

text \<open>
  The claim C4 as stated asks for a \<open>NotFound\<close> error on an unknown identifier. On the
  empty registry the call returns the assigner unchanged.
\<close>

theorem update_unknown_id_counterexample:
  "map_of (registry (fst (init ''v-ics-le'' None))) ''VICS-RUST-001'' = None \<and>
   update_github_number (fst (init ''v-ics-le'' None)) ''VICS-RUST-001'' 7
     = Inr (fst (init ''v-ics-le'' None)) \<and>
   update_github_number (fst (init ''v-ics-le'' None)) ''VICS-RUST-001'' 7 \<noteq> Inl NotFound"
  by (simp add: init_v_ics_le load_registry_def update_github_number_def)

subsection \<open>Storing under a key that is present\<close>

text \<open>
  C3, as the code has it: \<open>assign_id\<close> never fails. It stores the new record by
  dictionary assignment: afterwards the registry maps the identifier to the new
  record and every other key to what it held before; when the identifier was already
  a key, the key list is unchanged, so the record held before under it is replaced.
\<close>

theorem assign_id_replaces_existing:
  "\<exists>gid e s' i'.
     assign_id s i = Inr (gid, s', i') \<and>
     map_of (registry s') = (map_of (registry s))(gid \<mapsto> e) \<and>
     (gid \<in> set (dict_keys (registry s)) \<longrightarrow> dict_keys (registry s') = dict_keys (registry s)) \<and>
     entry_global_id e = gid \<and> entry_title e = title i \<and> entry_labels e = labels i \<and>
     local_number e = number i \<and> github_number e = None"
  by (simp add: assign_id_def Let_def map_of_setitem dict_keys_setitem)
    (intro exI conjI, rule refl, simp_all)

theorem assign_id_replaces_existing_witness:
  "''VICS-RUST-002'' \<in> set (dict_keys (registry (fst (init ''v-ics-le''
       (Some [(''VICS-RUST-002'', example_entry ''VICS-RUST-002'' ''RUST'' [''rust''] ''Old'')]))))) \<and>
   (\<exists>e s' i'.
      assign_id
        (fst (init ''v-ics-le''
           (Some [(''VICS-RUST-002'', example_entry ''VICS-RUST-002'' ''RUST'' [''rust''] ''Old'')])))
        (Issue 1 ''New'' ''text'' [''rust''] None None None)
      = Inr (''VICS-RUST-002'', s', i') \<and>
      entry_title e = ''New'' \<and>
      map_of (registry s') ''VICS-RUST-002'' = Some e \<and>
      dict_keys (registry s') = [''VICS-RUST-002''])"
proof -
  let ?R = "[(''VICS-RUST-002'', example_entry ''VICS-RUST-002'' ''RUST'' [''rust''] ''Old'')]"
  let ?S = "fst (init ''v-ics-le'' (Some ?R))"
  let ?I = "Issue 1 ''New'' ''text'' [''rust''] None None None"
  have k: "dict_keys (registry ?S) = [''VICS-RUST-002'']"
    by (simp add: init_registry dict_keys_def)
  have g: "\<exists>s' i'. assign_id ?S ?I = Inr (''VICS-RUST-002'', s', i')"
    by (simp add: init_v_ics_le load_registry_def assign_id_def Let_def Issue_def component_rust
        count_existing_filter dict_keys_def format_03d_2)
  have t: "title ?I = ''New''" by (simp add: Issue_def)
  from assign_id_replaces_existing [of ?S ?I] obtain gid e s' i' where
    a: "assign_id ?S ?I = Inr (gid, s', i')" and e: "entry_title e = title ?I"
    and m: "map_of (registry s') = (map_of (registry ?S))(gid \<mapsto> e)"
    and d: "gid \<in> set (dict_keys (registry ?S)) \<longrightarrow> dict_keys (registry s') = dict_keys (registry ?S)"
    by blast
  from a g have gid: "gid = ''VICS-RUST-002''" by auto
  with d k have "dict_keys (registry s') = [''VICS-RUST-002'']" by simp
  moreover from m gid have "map_of (registry s') ''VICS-RUST-002'' = Some e" by simp
  moreover from k have "''VICS-RUST-002'' \<in> set (dict_keys (registry ?S))" by simp
  ultimately show ?thesis using a gid e t by metis
qed

text \<open>
  The claim C3 as stated asks for a \<open>DuplicateId\<close> error. A registry that holds only
  \<open>VICS-RUST-002\<close> counts one key for \<open>VICS-RUST\<close>, so the next item labelled \<open>rust\<close>
  gets \<open>VICS-RUST-002\<close> again; the call returns and the old record is gone.
\<close>

theorem insert_existing_key_counterexample:
  "map_of (registry (fst (init ''v-ics-le''
       (Some [(''VICS-RUST-002'', example_entry ''VICS-RUST-002'' ''RUST'' [''rust''] ''Old'')]))))
     ''VICS-RUST-002''
     = Some (example_entry ''VICS-RUST-002'' ''RUST'' [''rust''] ''Old'') \<and>
   assign_id
     (fst (init ''v-ics-le''
        (Some [(''VICS-RUST-002'', example_entry ''VICS-RUST-002'' ''RUST'' [''rust''] ''Old'')])))
     (Issue 1 ''New'' ''text'' [''rust''] None None None)
   = Inr (''VICS-RUST-002'',
          (fst (init ''v-ics-le''
             (Some [(''VICS-RUST-002'', example_entry ''VICS-RUST-002'' ''RUST'' [''rust''] ''Old'')])))
            \<lparr>registry :=
               [(''VICS-RUST-002'', example_entry ''VICS-RUST-002'' ''RUST'' [''rust''] ''New'')]\<rparr>,
          (Issue 1 ''New'' ''text'' [''rust''] None None None)\<lparr>global_id := Some ''VICS-RUST-002''\<rparr>) \<and>
   assign_id
     (fst (init ''v-ics-le''
        (Some [(''VICS-RUST-002'', example_entry ''VICS-RUST-002'' ''RUST'' [''rust''] ''Old'')])))
     (Issue 1 ''New'' ''text'' [''rust''] None None None)
   \<noteq> Inl DuplicateId \<and>
   example_entry ''VICS-RUST-002'' ''RUST'' [''rust''] ''New''
   \<noteq> example_entry ''VICS-RUST-002'' ''RUST'' [''rust''] ''Old''"
  by (simp add: init_v_ics_le load_registry_def assign_id_def Let_def Issue_def component_rust
      count_existing_filter dict_keys_def format_03d_2 example_entry_def)

end
